theory Spec2Isabelle
  imports Complex_Main "HOL-Library.AList"
begin

section \<open>Common conventions\<close>

text \<open>
  The development embeds \<^verbatim>\<open>services/dashboard/data_adapter.py\<close>.

  \<^item> An instant (a timezone-aware \<^verbatim>\<open>datetime\<close>) is an \<open>int\<close>: microseconds since the
    epoch, the resolution of \<^verbatim>\<open>datetime\<close>. The source compares
    \<^verbatim>\<open>(a - b).total_seconds()\<close> with a whole number of seconds \<open>s\<close>; that is the
    comparison of \<open>a - b\<close> with \<open>s * 1000000\<close>. The strings produced by
    \<^verbatim>\<open>isoformat()\<close> and read back by \<^verbatim>\<open>fromisoformat\<close> denote the same instant, so
    a timestamp string of the data layer is modelled by its instant.
  \<^item> Every function that reads the wall clock takes the reading as an argument (the bot
    supervisor) or finds it in the world (the data layer).
  \<^item> A Python \<^verbatim>\<open>float\<close> that is only stored and forwarded is a \<open>real\<close>.
\<close>

type_synonym instant = int

definition seconds :: "int \<Rightarrow> int" where
  "seconds s = s * 1000000"

datatype HTTPException = HTTPException (status_code: int) (detail: string)

section \<open>Bot supervisor\<close>

subsection \<open>Pydantic models\<close>

text \<open>An open position is a \<^verbatim>\<open>Dict[str, Any]\<close> that is passed through uninterpreted.\<close>

type_synonym position = "(string \<times> string) list"

record BotSignal =
  sig_timestamp :: string
  sig_signal :: string
  sig_confidence :: real
  sig_symbol :: string
  sig_price :: real
  sig_reason :: string

record BotStatus =
  bs_state :: string
  bs_lastHeartbeatTs :: instant
  bs_currentSymbol :: string
  bs_tf :: string
  bs_openPositions :: "position list"
  bs_pnl :: real
  bs_lastSignals :: "BotSignal list"

text \<open>
  The \<^verbatim>\<open>timestamp\<close> of a heartbeat is the string the worker put into the payload; the
  supervisor never parses it.
\<close>

record BotHeartbeat =
  hb_timestamp :: string
  hb_state :: string
  hb_symbol :: string
  hb_tf :: string
  hb_lastSignal :: "BotSignal option"
  hb_openPositions :: "position list"
  hb_pnl :: real

text \<open>
  \<^verbatim>\<open>BotControlRequest\<close>: \<^verbatim>\<open>action\<close> is required, \<^verbatim>\<open>symbol\<close> and \<^verbatim>\<open>tf\<close> are
  \<^verbatim>\<open>Optional[str]\<close> with the defaults \<^verbatim>\<open>"BTCUSDT"\<close> and \<^verbatim>\<open>"15m"\<close>. A field of the
  request body is absent, \<^verbatim>\<open>null\<close>, or a string; the default fills in an absent field
  only.
\<close>

record BotControlRequest =
  req_action :: string
  req_symbol :: "string option"
  req_tf :: "string option"

datatype body_field = Omitted | Null | Given string

fun field_value :: "string \<Rightarrow> body_field \<Rightarrow> string option" where
  "field_value dflt Omitted = Some dflt"
| "field_value dflt Null = None"
| "field_value dflt (Given s) = Some s"

definition parse_BotControlRequest :: "string \<Rightarrow> body_field \<Rightarrow> body_field \<Rightarrow> BotControlRequest" where
  "parse_BotControlRequest action symbol tf =
     \<lparr>req_action = action,
      req_symbol = field_value ''BTCUSDT'' symbol,
      req_tf = field_value ''15m'' tf\<rparr>"

subsection \<open>BotManager\<close>

record BotManager =
  state :: string
  current_symbol :: string
  current_tf :: string
  last_heartbeat :: instant
  open_positions :: "position list"
  pnl :: real
  last_signals :: "BotSignal list"

text \<open>\<^verbatim>\<open>BotManager.__init__\<close>, run at the instant \<open>now\<close>.\<close>

definition BotManager_init :: "instant \<Rightarrow> BotManager" where
  "BotManager_init now =
     \<lparr>state = ''stopped'',
      current_symbol = ''BTCUSDT'',
      current_tf = ''15m'',
      last_heartbeat = now,
      open_positions = [],
      pnl = 0,
      last_signals = []\<rparr>"

text \<open>
  \<^verbatim>\<open>update_heartbeat\<close>. A \<^verbatim>\<open>BotSignal\<close> object is truthy, so
  \<^verbatim>\<open>if heartbeat.lastSignal\<close> tests for \<^verbatim>\<open>None\<close>; \<^verbatim>\<open>insert(0, s)\<close> followed by
  \<^verbatim>\<open>[:3]\<close> is \<open>take 3 (s # _)\<close>.
\<close>

definition update_heartbeat :: "instant \<Rightarrow> BotHeartbeat \<Rightarrow> BotManager \<Rightarrow> BotManager" where
  "update_heartbeat now heartbeat self =
     (let self = self\<lparr>last_heartbeat := now,
                      state := hb_state heartbeat,
                      current_symbol := hb_symbol heartbeat,
                      current_tf := hb_tf heartbeat,
                      open_positions := hb_openPositions heartbeat,
                      pnl := hb_pnl heartbeat\<rparr>
      in case hb_lastSignal heartbeat of
           None \<Rightarrow> self
         | Some s \<Rightarrow> self\<lparr>last_signals := take 3 (s # last_signals self)\<rparr>)"

text \<open>Truthiness of an \<^verbatim>\<open>Optional[str]\<close>: neither \<^verbatim>\<open>None\<close> nor the empty string.\<close>

fun truthy :: "string option \<Rightarrow> bool" where
  "truthy None = False"
| "truthy (Some s) = (s \<noteq> [])"

definition set_state :: "string \<Rightarrow> string option \<Rightarrow> string option \<Rightarrow> BotManager \<Rightarrow> BotManager" where
  "set_state action symbol tf self =
     (let self = (if action = ''start'' then self\<lparr>state := ''running''\<rparr>
                  else if action = ''pause'' then self\<lparr>state := ''paused''\<rparr>
                  else if action = ''stop'' then self\<lparr>state := ''stopped'', open_positions := []\<rparr>
                  else self);
          self = (case symbol of
                    Some s \<Rightarrow> if truthy symbol then self\<lparr>current_symbol := s\<rparr> else self
                  | None \<Rightarrow> self);
          self = (case tf of
                    Some t \<Rightarrow> if truthy tf then self\<lparr>current_tf := t\<rparr> else self
                  | None \<Rightarrow> self)
      in self)"

definition get_status :: "BotManager \<Rightarrow> BotStatus" where
  "get_status self =
     \<lparr>bs_state = state self,
      bs_lastHeartbeatTs = last_heartbeat self,
      bs_currentSymbol = current_symbol self,
      bs_tf = current_tf self,
      bs_openPositions = open_positions self,
      bs_pnl = pnl self,
      bs_lastSignals = last_signals self\<rparr>"

definition is_heartbeat_stale :: "instant \<Rightarrow> BotManager \<Rightarrow> int \<Rightarrow> bool" where
  "is_heartbeat_stale now self max_age_seconds =
     (let age = now - last_heartbeat self in age > seconds max_age_seconds)"

subsection \<open>Endpoints\<close>

record ControlResponse =
  cr_status :: string
  cr_message :: string
  cr_newState :: string
  cr_symbol :: string
  cr_tf :: string
  cr_timestamp :: instant

text \<open>\<^verbatim>\<open>POST /bot/control\<close>: the response, or the 400 error, and the supervisor afterwards.\<close>

definition bot_control ::
  "instant \<Rightarrow> BotControlRequest \<Rightarrow> BotManager \<Rightarrow> (HTTPException + ControlResponse) \<times> BotManager" where
  "bot_control now request bot_manager =
     (if req_action request \<notin> set [''start'', ''pause'', ''stop'']
      then (Inl (HTTPException 400 (''Invalid action: '' @ req_action request)), bot_manager)
      else
        let bot_manager = set_state (req_action request) (req_symbol request) (req_tf request) bot_manager
        in (Inr \<lparr>cr_status = ''success'',
                 cr_message = ''Bot '' @ req_action request @ '' command executed'',
                 cr_newState = state bot_manager,
                 cr_symbol = current_symbol bot_manager,
                 cr_tf = current_tf bot_manager,
                 cr_timestamp = now\<rparr>,
            bot_manager))"

text \<open>
  \<^verbatim>\<open>GET /bot/status\<close>: the status returned and the supervisor afterwards. The default
  \<^verbatim>\<open>max_age_seconds\<close> of \<^verbatim>\<open>is_heartbeat_stale\<close> is 60.
\<close>

definition bot_status :: "instant \<Rightarrow> BotManager \<Rightarrow> BotStatus \<times> BotManager" where
  "bot_status now bot_manager =
     (let status = get_status bot_manager
      in if is_heartbeat_stale now bot_manager 60 \<and> state bot_manager = ''running''
         then (status\<lparr>bs_state := ''disconnected''\<rparr>, bot_manager\<lparr>state := ''disconnected''\<rparr>)
         else (status, bot_manager))"

record HeartbeatResponse =
  hr_status :: string
  hr_message :: string
  hr_timestamp :: instant

text \<open>\<^verbatim>\<open>POST /bot/heartbeat\<close>.\<close>

definition bot_heartbeat :: "instant \<Rightarrow> BotHeartbeat \<Rightarrow> BotManager \<Rightarrow> HeartbeatResponse \<times> BotManager" where
  "bot_heartbeat now heartbeat bot_manager =
     (\<lparr>hr_status = ''success'', hr_message = ''Heartbeat received'', hr_timestamp = now\<rparr>,
      update_heartbeat now heartbeat bot_manager)"

text \<open>
  The supervisor states the process can be in: the initial one, and those the three
  endpoints lead to.
\<close>

inductive reachable :: "BotManager \<Rightarrow> bool" where
  reach_init: "reachable (BotManager_init now)"
| reach_heartbeat: "reachable st \<Longrightarrow> reachable (snd (bot_heartbeat now hb st))"
| reach_control: "reachable st \<Longrightarrow> reachable (snd (bot_control now req st))"
| reach_status: "reachable st \<Longrightarrow> reachable (snd (bot_status now st))"

section \<open>Market data layer\<close>

subsection \<open>The world outside: metrics store, exchange, clock\<close>

text \<open>A raised Python exception, with its text \<^verbatim>\<open>str(e)\<close>.\<close>

datatype exn = Exn string

text \<open>The requests the adapter sends to the store and to the exchange, in order.\<close>

datatype call =
    InfluxPriceQuery string
  | InfluxCandleQuery string string int
  | InfluxCountQuery string string int
  | InfluxWrite nat
  | BinanceTickerPrice string
  | BinanceKlines string string int

fun is_exchange_call :: "call \<Rightarrow> bool" where
  "is_exchange_call (BinanceTickerPrice _) = True"
| "is_exchange_call (BinanceKlines _ _ _) = True"
| "is_exchange_call _ = False"

text \<open>
  A row of a query result: \<^verbatim>\<open>get_time()\<close>, and \<^verbatim>\<open>float(get_value())\<close>, which is
  \<open>None\<close> when the value is one that \<^verbatim>\<open>float\<close> raises on.
\<close>

record FluxRecord =
  row_time :: instant
  row_value :: "real option"

text \<open>
  A point of the measurement \<^verbatim>\<open>candles\<close>: the tags \<^verbatim>\<open>symbol\<close> and
  \<^verbatim>\<open>timeframe\<close> and the time in whole seconds identify it. The only writer of the
  measurement is \<^verbatim>\<open>write_candles_to_influx\<close>, which sets these two tags and all five
  fields on every point.
\<close>

type_synonym series_key = "string \<times> string \<times> int"

record candle_fields =
  f_open :: real
  f_high :: real
  f_low :: real
  f_close :: real
  f_volume :: real

text \<open>One entry of the exchange's \<^verbatim>\<open>/klines\<close> answer: open time in milliseconds, OHLCV.\<close>

record kline =
  k_open_time :: int
  k_open :: real
  k_high :: real
  k_low :: real
  k_close :: real
  k_volume :: real

text \<open>
  The world a request handler runs in.
  \<^item> \<open>clock\<close>: the reading of \<^verbatim>\<open>datetime.now(timezone.utc)\<close> during the call.
  \<^item> \<open>influx_client\<close>, \<open>write_api\<close>: whether \<^verbatim>\<open>init_influxdb\<close> set the attribute.
  \<^item> \<open>influx_query_error\<close>, \<open>influx_write_error\<close>: the exception a query (a write) to the
    store raises now, if it raises.
  \<^item> \<open>price_tables symbol\<close>: the tables the store answers to the last-price query of
    \<^verbatim>\<open>get_latest_price_from_influx\<close>.
  \<^item> \<open>candle_points\<close>: the content of the measurement \<^verbatim>\<open>candles\<close>, an association
    list on the series key. A write to a key that is present replaces its fields.
  \<^item> \<open>binance_ticker_price\<close>, \<open>binance_klines\<close>: the exchange's answer, already parsed
    (\<^verbatim>\<open>data["symbol"]\<close> and \<^verbatim>\<open>float(data["price"])\<close>; the klines), or the exception that
    the request, \<^verbatim>\<open>raise_for_status\<close> or the parsing raises.
  \<^item> \<open>fromtimestamp_ok\<close>: the timestamps \<^verbatim>\<open>datetime.fromtimestamp\<close> accepts on this
    platform.
  \<^item> \<open>calls\<close>: the requests sent so far.
\<close>

record world =
  clock :: instant
  influx_client :: bool
  write_api :: bool
  influx_query_error :: "exn option"
  influx_write_error :: "exn option"
  price_tables :: "string \<Rightarrow> FluxRecord list list"
  candle_points :: "(series_key \<times> candle_fields) list"
  binance_ticker_price :: "string \<Rightarrow> exn + (string \<times> real)"
  binance_klines :: "string \<Rightarrow> string \<Rightarrow> int \<Rightarrow> exn + kline list"
  fromtimestamp_ok :: "int \<Rightarrow> bool"
  calls :: "call list"

definition record_call :: "call \<Rightarrow> world \<Rightarrow> world" where
  "record_call c w = w\<lparr>calls := calls w @ [c]\<rparr>"

definition exchange_calls :: "world \<Rightarrow> call list" where
  "exchange_calls w = filter is_exchange_call (calls w)"

subsection \<open>Dictionaries and response models\<close>

text \<open>
  The price dictionary of the two leaf functions has the keys of \<^verbatim>\<open>PriceResponse\<close>, and
  \<^verbatim>\<open>PriceResponse(**d)\<close> copies them; one record serves for both.
\<close>

record PriceResponse =
  pr_symbol :: string
  pr_price :: real
  pr_timestamp :: instant
  pr_source :: string

record candle =
  c_timestamp :: int
  c_open :: real
  c_high :: real
  c_low :: real
  c_close :: real
  c_volume :: real
  c_symbol :: string
  c_timeframe :: string

record ChartResponse =
  ch_candles :: "candle list"
  ch_symbol :: string
  ch_interval :: string
  ch_count :: int
  ch_source :: string

record BackfillRequest =
  bf_symbol :: string
  bf_interval :: string
  bf_limit :: int

record BackfillResponse =
  br_symbol :: string
  br_interval :: string
  br_candlesWritten :: int
  br_status :: string
  br_message :: string

subsection \<open>Formatting integers\<close>

text \<open>\<^verbatim>\<open>str(n)\<close> of a Python \<^verbatim>\<open>int\<close>, as an f-string interpolates it.\<close>

fun digits :: "nat \<Rightarrow> string" where
  "digits n = (if n < 10 then [''0123456789'' ! n]
               else digits (n div 10) @ [''0123456789'' ! (n mod 10)])"

declare digits.simps [simp del]

definition str_int :: "int \<Rightarrow> string" where
  "str_int i = (if i < 0 then CHR ''-'' # digits (nat (- i)) else digits (nat i))"

text \<open>Python's \<^verbatim>\<open>needle in haystack\<close> on strings.\<close>

fun contains :: "string \<Rightarrow> string \<Rightarrow> bool" where
  "contains needle [] = (needle = [])"
| "contains needle (c # cs) = (take (length needle) (c # cs) = needle \<or> contains needle cs)"

subsection \<open>DataAdapter: the store\<close>

text \<open>
  The first row of the first table that has one, as the nested \<^verbatim>\<open>for\<close> loops with a
  \<^verbatim>\<open>return\<close> in the body find it.
\<close>

definition first_row :: "'r list list \<Rightarrow> 'r option" where
  "first_row tables = (case concat tables of [] \<Rightarrow> None | r # _ \<Rightarrow> Some r)"

text \<open>
  \<^verbatim>\<open>get_latest_price_from_influx\<close>: \<^verbatim>\<open>None\<close> without a client, on an exception (of
  the query, or of \<^verbatim>\<open>float\<close> on the value of the row), and on an empty answer.
\<close>

definition get_latest_price_from_influx :: "world \<Rightarrow> string \<Rightarrow> PriceResponse option \<times> world" where
  "get_latest_price_from_influx w symbol =
     (if \<not> influx_client w then (None, w)
      else
        let w1 = record_call (InfluxPriceQuery symbol) w
        in case influx_query_error w of
             Some e \<Rightarrow> (None, w1)
           | None \<Rightarrow>
               (case first_row (price_tables w symbol) of
                  Some row \<Rightarrow>
                    (case row_value row of
                       Some price \<Rightarrow>
                         (Some \<lparr>pr_symbol = symbol,
                                pr_price = price,
                                pr_timestamp = row_time row,
                                pr_source = ''influx''\<rparr>, w1)
                     | None \<Rightarrow> (None, w1))
                | None \<Rightarrow> (None, w1)))"

text \<open>
  The time range of a query, \<^verbatim>\<open>range(start: -d)\<close>: from \<open>d\<close> before now (included) to
  now (excluded). Candle points carry whole seconds.
\<close>

definition in_range :: "world \<Rightarrow> int \<Rightarrow> int \<Rightarrow> bool" where
  "in_range w duration_seconds t =
     (clock w - seconds duration_seconds \<le> seconds t \<and> seconds t < clock w)"

definition in_series :: "string \<Rightarrow> string \<Rightarrow> series_key \<Rightarrow> bool" where
  "in_series symbol interval k = (fst k = symbol \<and> fst (snd k) = interval)"

definition point_time :: "series_key \<times> candle_fields \<Rightarrow> int" where
  "point_time p = snd (snd (fst p))"

text \<open>Flux \<^verbatim>\<open>tail(n: n)\<close>: the last \<open>n\<close> rows of a table.\<close>

definition flux_tail :: "int \<Rightarrow> 'a list \<Rightarrow> 'a list" where
  "flux_tail n rows = (if n \<le> 0 then [] else drop (length rows - nat n) rows)"

text \<open>
  \<^verbatim>\<open>FluxRecord\<close> of the store's client library gives a row's values through
  \<^verbatim>\<open>get_time()\<close>, \<^verbatim>\<open>get_value()\<close> and \<^verbatim>\<open>row[key]\<close>, which the other readers of this
  file use; it has no method \<^verbatim>\<open>get\<close>. The call \<^verbatim>\<open>row.get(key, default)\<close> of
  \<^verbatim>\<open>get_candles_from_influx\<close> raises \<^verbatim>\<open>AttributeError\<close>, for every row, key and default.
\<close>

definition FluxRecord_get :: "series_key \<times> candle_fields \<Rightarrow> string \<Rightarrow> real \<Rightarrow> exn + real" where
  "FluxRecord_get row key dflt =
     Inl (Exn ''AttributeError: FluxRecord object has no attribute get'')"

text \<open>
  The dictionary built from a pivoted row: the entries are evaluated in order, and the
  first exception ends the evaluation.
\<close>

definition candle_of_row :: "string \<Rightarrow> string \<Rightarrow> series_key \<times> candle_fields \<Rightarrow> exn + candle" where
  "candle_of_row symbol interval row =
     (let timestamp = point_time row
      in case FluxRecord_get row ''open'' 0 of Inl e \<Rightarrow> Inl e | Inr v_open \<Rightarrow>
         case FluxRecord_get row ''high'' 0 of Inl e \<Rightarrow> Inl e | Inr v_high \<Rightarrow>
         case FluxRecord_get row ''low'' 0 of Inl e \<Rightarrow> Inl e | Inr v_low \<Rightarrow>
         case FluxRecord_get row ''close'' 0 of Inl e \<Rightarrow> Inl e | Inr v_close \<Rightarrow>
         case FluxRecord_get row ''volume'' 0 of Inl e \<Rightarrow> Inl e | Inr v_volume \<Rightarrow>
           Inr \<lparr>c_timestamp = timestamp,
                c_open = v_open,
                c_high = v_high,
                c_low = v_low,
                c_close = v_close,
                c_volume = v_volume,
                c_symbol = symbol,
                c_timeframe = interval\<rparr>)"

text \<open>The loop over the rows, appending a dictionary per row until one raises.\<close>

fun candles_of_rows :: "string \<Rightarrow> string \<Rightarrow> (series_key \<times> candle_fields) list \<Rightarrow> exn + candle list" where
  "candles_of_rows symbol interval [] = Inr []"
| "candles_of_rows symbol interval (row # rows) =
     (case candle_of_row symbol interval row of
        Inl e \<Rightarrow> Inl e
      | Inr c \<Rightarrow>
          (case candles_of_rows symbol interval rows of
             Inl e \<Rightarrow> Inl e
           | Inr cs \<Rightarrow> Inr (c # cs)))"

text \<open>
  \<^verbatim>\<open>get_candles_from_influx\<close>: the query selects the points of the series in the last 7
  days, pivoted to one row per time, sorted by time, the last \<open>limit\<close> of them. An
  exception, of the query or while the dictionaries are built, is logged and gives
  \<^verbatim>\<open>[]\<close>.
\<close>

definition get_candles_from_influx :: "world \<Rightarrow> string \<Rightarrow> string \<Rightarrow> int \<Rightarrow> candle list \<times> world" where
  "get_candles_from_influx w symbol interval limit =
     (if \<not> influx_client w then ([], w)
      else
        let w1 = record_call (InfluxCandleQuery symbol interval limit) w
        in case influx_query_error w of
             Some e \<Rightarrow> ([], w1)
           | None \<Rightarrow>
               (let rows = filter (\<lambda>p. in_series symbol interval (fst p)
                                        \<and> in_range w (7 * 86400) (point_time p))
                                  (candle_points w);
                    rows = flux_tail limit (sort_key point_time rows)
                in case candles_of_rows symbol interval rows of
                     Inl e \<Rightarrow> ([], w1)
                   | Inr candles \<Rightarrow> (candles, w1)))"

text \<open>
  \<^verbatim>\<open>check_influx_candle_count\<close>: the number of \<^verbatim>\<open>close\<close> values of the series in the
  last \<open>hours\<close> hours; 0 without a client, on an exception, and when the answer has no
  row.
\<close>

definition check_influx_candle_count :: "world \<Rightarrow> string \<Rightarrow> string \<Rightarrow> int \<Rightarrow> int \<times> world" where
  "check_influx_candle_count w symbol interval hours =
     (if \<not> influx_client w then (0, w)
      else
        let w1 = record_call (InfluxCountQuery symbol interval hours) w
        in case influx_query_error w of
             Some e \<Rightarrow> (0, w1)
           | None \<Rightarrow>
               (int (length (filter (\<lambda>p. in_series symbol interval (fst p)
                                          \<and> in_range w (hours * 3600) (point_time p))
                                    (candle_points w))), w1))"

text \<open>The point \<^verbatim>\<open>write_candles_to_influx\<close> builds from a candle dictionary.\<close>

definition point_of_candle :: "candle \<Rightarrow> series_key \<times> candle_fields" where
  "point_of_candle c =
     ((c_symbol c, c_timeframe c, c_timestamp c),
      \<lparr>f_open = c_open c,
       f_high = c_high c,
       f_low = c_low c,
       f_close = c_close c,
       f_volume = c_volume c\<rparr>)"

text \<open>The store takes the points one after the other; a point on a key that is present
  replaces it.\<close>

definition write_points ::
  "(series_key \<times> candle_fields) list \<Rightarrow> (series_key \<times> candle_fields) list
     \<Rightarrow> (series_key \<times> candle_fields) list" where
  "write_points ps store = fold (\<lambda>p. AList.update (fst p) (snd p)) ps store"

text \<open>
  \<^verbatim>\<open>write_candles_to_influx\<close>: returns \<^verbatim>\<open>len(points)\<close>, the number of points handed to
  the write; 0 without a write API, for no candles, and on an exception (of
  \<^verbatim>\<open>fromtimestamp\<close> while the points are built, or of the write, which then stores
  nothing).
\<close>

definition write_candles_to_influx :: "world \<Rightarrow> candle list \<Rightarrow> int \<times> world" where
  "write_candles_to_influx w candles =
     (if \<not> write_api w \<or> candles = [] then (0, w)
      else if \<not> list_all (\<lambda>c. fromtimestamp_ok w (c_timestamp c)) candles then (0, w)
      else
        let points = map point_of_candle candles;
            w1 = record_call (InfluxWrite (length points)) w
        in case influx_write_error w of
             Some e \<Rightarrow> (0, w1)
           | None \<Rightarrow>
               (int (length points),
                w1\<lparr>candle_points := write_points points (candle_points w1)\<rparr>))"

subsection \<open>DataAdapter: the exchange\<close>

text \<open>\<^verbatim>\<open>get_price_from_binance\<close>: any exception is logged and gives \<^verbatim>\<open>None\<close>.\<close>

definition get_price_from_binance :: "world \<Rightarrow> string \<Rightarrow> PriceResponse option \<times> world" where
  "get_price_from_binance w symbol =
     (let w1 = record_call (BinanceTickerPrice symbol) w
      in case binance_ticker_price w symbol of
           Inl e \<Rightarrow> (None, w1)
         | Inr data \<Rightarrow>
             (Some \<lparr>pr_symbol = fst data,
                    pr_price = snd data,
                    pr_timestamp = clock w,
                    pr_source = ''binance''\<rparr>, w1))"

definition candle_of_kline :: "string \<Rightarrow> string \<Rightarrow> kline \<Rightarrow> candle" where
  "candle_of_kline symbol interval k =
     \<lparr>c_timestamp = k_open_time k div 1000,
      c_open = k_open k,
      c_high = k_high k,
      c_low = k_low k,
      c_close = k_close k,
      c_volume = k_volume k,
      c_symbol = symbol,
      c_timeframe = interval\<rparr>"

text \<open>\<^verbatim>\<open>get_candles_from_binance\<close>: one request; any exception is logged and gives \<^verbatim>\<open>[]\<close>.\<close>

definition get_candles_from_binance :: "world \<Rightarrow> string \<Rightarrow> string \<Rightarrow> int \<Rightarrow> candle list \<times> world" where
  "get_candles_from_binance w symbol interval limit =
     (let w1 = record_call (BinanceKlines symbol interval limit) w
      in case binance_klines w symbol interval limit of
           Inl e \<Rightarrow> ([], w1)
         | Inr klines \<Rightarrow> (map (candle_of_kline symbol interval) klines, w1))"

subsection \<open>Endpoints\<close>

text \<open>
  \<^verbatim>\<open>GET /data/price\<close>. No statement of the \<^verbatim>\<open>try\<close> body raises anything but the 404, so
  the handler's 500 branch has no case here.
\<close>

definition get_price :: "world \<Rightarrow> string \<Rightarrow> (HTTPException + PriceResponse) \<times> world" where
  "get_price w symbol =
     (let (influx_price, w1) = get_latest_price_from_influx w symbol;
          fallback =
            (let (binance_price, w2) = get_price_from_binance w1 symbol
             in case binance_price of
                  None \<Rightarrow> (Inl (HTTPException 404 (''Price not found for symbol '' @ symbol)), w2)
                | Some p \<Rightarrow> (Inr p, w2))
      in case influx_price of
           Some p \<Rightarrow>
             (let age = clock w1 - pr_timestamp p
              in if age \<le> seconds 300 then (Inr p, w1) else fallback)
         | None \<Rightarrow> fallback)"

text \<open>
  \<^verbatim>\<open>GET /chart/candles\<close>, the function body (the framework rejects \<open>limit > 1000\<close> before
  it runs). \<^verbatim>\<open>limit // 2\<close> is floor division, as \<open>div\<close> on \<open>int\<close> is.
\<close>

definition get_chart_candles ::
  "world \<Rightarrow> string \<Rightarrow> string \<Rightarrow> int \<Rightarrow> (HTTPException + ChartResponse) \<times> world" where
  "get_chart_candles w symbol interval limit =
     (let (candles, w1) = get_candles_from_influx w symbol interval limit
      in if candles \<noteq> [] \<and> int (length candles) \<ge> min 50 (limit div 2)
         then (Inr \<lparr>ch_candles = candles,
                    ch_symbol = symbol,
                    ch_interval = interval,
                    ch_count = int (length candles),
                    ch_source = ''influxdb''\<rparr>, w1)
         else
           let (candles, w2) = get_candles_from_binance w1 symbol interval limit
           in if candles \<noteq> []
              then
                let (n, w3) = write_candles_to_influx w2 candles
                in (Inr \<lparr>ch_candles = candles,
                         ch_symbol = symbol,
                         ch_interval = interval,
                         ch_count = int (length candles),
                         ch_source = ''binance''\<rparr>, w3)
              else (Inl (HTTPException 404
                          (''No candle data available for '' @ symbol @ '' '' @ interval)), w2))"

text \<open>
  \<^verbatim>\<open>POST /data/backfill-candles\<close>. The three callees catch their exceptions, so the
  handler's 500 branch has no case here; the result type keeps it.
\<close>

definition backfill_candles ::
  "world \<Rightarrow> BackfillRequest \<Rightarrow> (HTTPException + BackfillResponse) \<times> world" where
  "backfill_candles w request =
     (let (current_count, w1) =
            check_influx_candle_count w (bf_symbol request) (bf_interval request) 24;
          threshold = 100
      in if current_count \<ge> threshold
         then (Inr \<lparr>br_symbol = bf_symbol request,
                    br_interval = bf_interval request,
                    br_candlesWritten = 0,
                    br_status = ''skipped'',
                    br_message = ''Sufficient data exists ('' @ str_int current_count
                                 @ '' candles >= '' @ str_int threshold @ '')''\<rparr>, w1)
         else
           let (candles, w2) =
                 get_candles_from_binance w1 (bf_symbol request) (bf_interval request)
                   (bf_limit request)
           in if candles = []
              then (Inr \<lparr>br_symbol = bf_symbol request,
                         br_interval = bf_interval request,
                         br_candlesWritten = 0,
                         br_status = ''failed'',
                         br_message = ''No candle data available from Binance''\<rparr>, w2)
              else
                let (written_count, w3) = write_candles_to_influx w2 candles
                in (Inr \<lparr>br_symbol = bf_symbol request,
                         br_interval = bf_interval request,
                         br_candlesWritten = written_count,
                         br_status = ''success'',
                         br_message = ''Successfully backfilled '' @ str_int written_count
                                      @ '' candles''\<rparr>, w3))"

section \<open>Specification vocabulary and example data\<close>

text \<open>
  The store query of price resolution yields a record whose age is at most
  \<open>T_fresh\<close> = 300 seconds.
\<close>

definition store_record_fresh :: "world \<Rightarrow> string \<Rightarrow> bool" where
  "store_record_fresh w symbol =
     (case fst (get_latest_price_from_influx w symbol) of
        None \<Rightarrow> False
      | Some p \<Rightarrow> clock w - pr_timestamp p \<le> seconds 300)"

text \<open>The reason an outcome of backfill carries: the message, or the detail of the error.\<close>

definition reason_of :: "HTTPException + BackfillResponse \<Rightarrow> string" where
  "reason_of r = (case r of Inl e \<Rightarrow> detail e | Inr resp \<Rightarrow> br_message resp)"

definition example_signal :: "string \<Rightarrow> BotSignal" where
  "example_signal r =
     \<lparr>sig_timestamp = ''2025-01-01T00:00:00+00:00'', sig_signal = ''buy'', sig_confidence = 1,
      sig_symbol = ''BTCUSDT'', sig_price = 1, sig_reason = r\<rparr>"

definition example_heartbeat :: "string \<Rightarrow> string \<Rightarrow> BotSignal option \<Rightarrow> BotHeartbeat" where
  "example_heartbeat ts st sg =
     \<lparr>hb_timestamp = ts, hb_state = st, hb_symbol = ''BTCUSDT'', hb_tf = ''1m'',
      hb_lastSignal = sg, hb_openPositions = [], hb_pnl = 0\<rparr>"

text \<open>
  A world at second 1000: store and exchange up, one price row for BTCUSDT from second
  900, no candle stored, an exchange that answers every klines request with one candle
  opened at second 940.
\<close>

definition example_world :: world where
  "example_world =
     \<lparr>clock = seconds 1000,
      influx_client = True,
      write_api = True,
      influx_query_error = None,
      influx_write_error = None,
      price_tables =
        (\<lambda>s. if s = ''BTCUSDT'' then [ [\<lparr>row_time = seconds 900, row_value = Some 50000\<rparr>] ]
             else []),
      candle_points = [],
      binance_ticker_price = (\<lambda>s. Inr (s, 50001)),
      binance_klines =
        (\<lambda>s i l. Inr [\<lparr>k_open_time = 940000, k_open = 1, k_high = 2, k_low = 1, k_close = 2,
                        k_volume = 10\<rparr>]),
      fromtimestamp_ok = (\<lambda>t. 0 \<le> t),
      calls = []\<rparr>"

text \<open>
  The write of \<^verbatim>\<open>write_candles_to_influx\<close> goes through: there is a write API, there are
  candles, \<^verbatim>\<open>fromtimestamp\<close> accepts every timestamp, and the store takes the write.
\<close>

definition write_succeeds :: "world \<Rightarrow> candle list \<Rightarrow> bool" where
  "write_succeeds w candles =
     (write_api w \<and> candles \<noteq> []
      \<and> list_all (\<lambda>c. fromtimestamp_ok w (c_timestamp c)) candles
      \<and> influx_write_error w = None)"

text \<open>The count backfill compares with its threshold, and the candles it fetches.\<close>

abbreviation store_count :: "world \<Rightarrow> BackfillRequest \<Rightarrow> int" where
  "store_count w r \<equiv> fst (check_influx_candle_count w (bf_symbol r) (bf_interval r) 24)"

abbreviation fetched_candles :: "world \<Rightarrow> BackfillRequest \<Rightarrow> candle list" where
  "fetched_candles w r \<equiv>
     fst (get_candles_from_binance w (bf_symbol r) (bf_interval r) (bf_limit r))"

definition example_request :: "int \<Rightarrow> BackfillRequest" where
  "example_request limit = \<lparr>bf_symbol = ''BTCUSDT'', bf_interval = ''1m'', bf_limit = limit\<rparr>"

definition example_fields :: candle_fields where
  "example_fields = \<lparr>f_open = 1, f_high = 2, f_low = 1, f_close = 2, f_volume = 10\<rparr>"

text \<open>The candle of the example exchange, as a dictionary.\<close>

definition example_candle :: candle where
  "example_candle =
     \<lparr>c_timestamp = 940, c_open = 1, c_high = 2, c_low = 1, c_close = 2, c_volume = 10,
      c_symbol = ''BTCUSDT'', c_timeframe = ''1m''\<rparr>"

text \<open>A store with 100 one-minute candles of BTCUSDT, from second 0 to second 5940.\<close>

definition warm_store :: "(series_key \<times> candle_fields) list" where
  "warm_store = map (\<lambda>i. ((''BTCUSDT'', ''1m'', 60 * int i), example_fields)) [0..<100]"

section \<open>Bot supervisor: properties\<close>

lemma last_signals_update_heartbeat:
  "last_signals (update_heartbeat now hb st) =
     (case hb_lastSignal hb of None \<Rightarrow> last_signals st | Some s \<Rightarrow> take 3 (s # last_signals st))"
  by (simp add: update_heartbeat_def split: option.splits)

lemma last_signals_set_state: "last_signals (set_state a s t st) = last_signals st"
  by (simp add: set_state_def Let_def split: option.splits)

lemma last_signals_bot_control: "last_signals (snd (bot_control now req st)) = last_signals st"
  by (simp add: bot_control_def Let_def last_signals_set_state)

lemma last_signals_bot_status: "last_signals (snd (bot_status now st)) = last_signals st"
  by (simp add: bot_status_def Let_def)

lemma reachable_signals_le_3: "reachable st \<Longrightarrow> length (last_signals st) \<le> 3"
proof (induction rule: reachable.induct)
  case (reach_init now)
  then show ?case by (simp add: BotManager_init_def)
next
  case (reach_heartbeat st now hb)
  then show ?case
    by (simp add: bot_heartbeat_def last_signals_update_heartbeat split: option.splits)
next
  case (reach_control st now req)
  then show ?case by (simp add: last_signals_bot_control)
next
  case (reach_status st now)
  then show ?case by (simp add: last_signals_bot_status)
qed

text \<open>
  C8. In every state the supervisor can reach, \<open>last_signals\<close> holds at most 3 signals; a
  heartbeat that carries a signal puts it at the front and keeps the first three; after
  five heartbeats carrying the signals \<open>s1\<close> to \<open>s5\<close> in this order the sequence is
  \<open>[s5, s4, s3]\<close>.
\<close>

theorem recent_signals_capacity_3_newest_first:
  assumes "reachable st"
    and "hb_lastSignal h1 = Some s1" and "hb_lastSignal h2 = Some s2"
    and "hb_lastSignal h3 = Some s3" and "hb_lastSignal h4 = Some s4"
    and "hb_lastSignal h5 = Some s5"
  shows "length (last_signals st) \<le> 3
       \<and> last_signals (update_heartbeat t1 h1 st) = take 3 (s1 # last_signals st)
       \<and> last_signals
           (update_heartbeat t5 h5 (update_heartbeat t4 h4 (update_heartbeat t3 h3
              (update_heartbeat t2 h2 (update_heartbeat t1 h1 st)))))
         = [s5, s4, s3]"
  using assms by (simp add: reachable_signals_le_3 last_signals_update_heartbeat)

theorem recent_signals_capacity_3_newest_first_witness:
  "reachable (BotManager_init 0)
   \<and> length (last_signals (BotManager_init 0)) \<le> 3
   \<and> last_signals
        (update_heartbeat 5 (example_heartbeat ''t5'' ''running'' (Some (example_signal ''e'')))
        (update_heartbeat 4 (example_heartbeat ''t4'' ''running'' (Some (example_signal ''d'')))
        (update_heartbeat 3 (example_heartbeat ''t3'' ''running'' (Some (example_signal ''c'')))
        (update_heartbeat 2 (example_heartbeat ''t2'' ''running'' (Some (example_signal ''b'')))
        (update_heartbeat 1 (example_heartbeat ''t1'' ''running'' (Some (example_signal ''a'')))
           (BotManager_init 0))))))
      = [example_signal ''e'', example_signal ''d'', example_signal ''c'']"
  using recent_signals_capacity_3_newest_first
    [where st = "BotManager_init 0"
       and ?h1.0 = "example_heartbeat ''t1'' ''running'' (Some (example_signal ''a''))"
       and ?h2.0 = "example_heartbeat ''t2'' ''running'' (Some (example_signal ''b''))"
       and ?h3.0 = "example_heartbeat ''t3'' ''running'' (Some (example_signal ''c''))"
       and ?h4.0 = "example_heartbeat ''t4'' ''running'' (Some (example_signal ''d''))"
       and ?h5.0 = "example_heartbeat ''t5'' ''running'' (Some (example_signal ''e''))"
       and ?s1.0 = "example_signal ''a''" and ?s2.0 = "example_signal ''b''"
       and ?s3.0 = "example_signal ''c''" and ?s4.0 = "example_signal ''d''"
       and ?s5.0 = "example_signal ''e''"
       and ?t1.0 = 1 and ?t2.0 = 2 and ?t3.0 = 3 and ?t4.0 = 4 and ?t5.0 = 5]
  by (simp add: example_heartbeat_def reach_init)

text \<open>
  C3, as stated, fails: a worker reports \<open>running\<close> at instant 0; the status read at
  second 61 stores \<open>disconnected\<close> in the supervisor, which is no longer the state the
  heartbeat left.
\<close>

theorem status_read_stores_disconnected:
  "state (snd (bot_heartbeat 0 (example_heartbeat ''t'' ''running'' None) (BotManager_init 0)))
     = ''running''
   \<and> state (snd (bot_status (seconds 61)
        (snd (bot_heartbeat 0 (example_heartbeat ''t'' ''running'' None) (BotManager_init 0)))))
     = ''disconnected''
   \<and> snd (bot_status (seconds 61)
        (snd (bot_heartbeat 0 (example_heartbeat ''t'' ''running'' None) (BotManager_init 0))))
     \<noteq> snd (bot_heartbeat 0 (example_heartbeat ''t'' ''running'' None) (BotManager_init 0))"
  by (simp add: bot_status_def bot_heartbeat_def update_heartbeat_def example_heartbeat_def
      BotManager_init_def is_heartbeat_stale_def seconds_def get_status_def)

text \<open>
  C3, amended. A status read with the stored state \<open>running\<close> and a heartbeat older than
  60 seconds reports \<open>disconnected\<close> and stores \<open>disconnected\<close> as the state, changing no
  other field; every other read returns the stored status and changes nothing. A
  heartbeat that follows sets the stored state to the one the worker reports, and a read
  within 60 seconds of it reports that state.
\<close>

theorem status_read_projection:
  "(if state st = ''running'' \<and> now - last_heartbeat st > seconds 60
    then bs_state (fst (bot_status now st)) = ''disconnected''
       \<and> snd (bot_status now st) = st\<lparr>state := ''disconnected''\<rparr>
    else fst (bot_status now st) = get_status st \<and> snd (bot_status now st) = st)
   \<and> state (update_heartbeat t hb (snd (bot_status now st))) = hb_state hb
   \<and> (t' - t \<le> seconds 60 \<longrightarrow>
        bs_state (fst (bot_status t' (update_heartbeat t hb (snd (bot_status now st)))))
          = hb_state hb)"
  by (auto simp add: bot_status_def is_heartbeat_stale_def Let_def update_heartbeat_def
      get_status_def split: option.splits)

theorem status_read_projection_witness:
  "state (BotManager_init 0\<lparr>state := ''running''\<rparr>) = ''running''
   \<and> seconds 61 - last_heartbeat (BotManager_init 0\<lparr>state := ''running''\<rparr>) > seconds 60
   \<and> bs_state (fst (bot_status (seconds 61) (BotManager_init 0\<lparr>state := ''running''\<rparr>)))
       = ''disconnected''
   \<and> snd (bot_status (seconds 61) (BotManager_init 0\<lparr>state := ''running''\<rparr>))
       = BotManager_init 0\<lparr>state := ''disconnected''\<rparr>
   \<and> seconds 62 - seconds 62 \<le> seconds 60
   \<and> bs_state (fst (bot_status (seconds 62)
         (update_heartbeat (seconds 62) (example_heartbeat ''t'' ''running'' None)
            (snd (bot_status (seconds 61) (BotManager_init 0\<lparr>state := ''running''\<rparr>))))))
       = ''running''"
  using status_read_projection [where st = "BotManager_init 0\<lparr>state := ''running''\<rparr>"
      and now = "seconds 61" and t = "seconds 62" and t' = "seconds 62"
      and hb = "example_heartbeat ''t'' ''running'' None"]
  by (simp add: BotManager_init_def seconds_def example_heartbeat_def bot_status_def
      is_heartbeat_stale_def get_status_def update_heartbeat_def)

text \<open>
  C9. A heartbeat ingested at the instant \<open>now\<close> sets \<open>last_heartbeat\<close> to \<open>now\<close>; the
  timestamp in the payload has no effect on the supervisor; the heartbeat is stale at
  \<open>t\<close> exactly when \<open>t\<close> is more than 60 seconds after the arrival, so it is fresh at
  arrival.
\<close>

theorem heartbeat_arrival_time:
  "last_heartbeat (update_heartbeat now hb st) = now
   \<and> update_heartbeat now (hb\<lparr>hb_timestamp := ts\<rparr>) st = update_heartbeat now hb st
   \<and> is_heartbeat_stale t (update_heartbeat now hb st) 60 = (t - now > seconds 60)
   \<and> \<not> is_heartbeat_stale now (update_heartbeat now hb st) 60"
  by (simp add: update_heartbeat_def is_heartbeat_stale_def seconds_def Let_def
      split: option.splits)

text \<open>
  C10, as stated, fails: after \<open>start\<close> on ETHUSDT and 1h, a \<open>pause\<close> request whose
  symbol is the empty string and whose timeframe is \<open>null\<close> leaves ETHUSDT and 1h in
  place.
\<close>

theorem control_keeps_symbol_on_empty:
  "req_action (parse_BotControlRequest ''pause'' (Given []) Null) \<in> {''start'', ''pause'', ''stop''}
   \<and> req_symbol (parse_BotControlRequest ''pause'' (Given []) Null) = Some []
   \<and> req_tf (parse_BotControlRequest ''pause'' (Given []) Null) = None
   \<and> current_symbol (snd (bot_control 1 (parse_BotControlRequest ''pause'' (Given []) Null)
        (snd (bot_control 0 (parse_BotControlRequest ''start'' (Given ''ETHUSDT'') (Given ''1h''))
           (BotManager_init 0))))) = ''ETHUSDT''
   \<and> current_tf (snd (bot_control 1 (parse_BotControlRequest ''pause'' (Given []) Null)
        (snd (bot_control 0 (parse_BotControlRequest ''start'' (Given ''ETHUSDT'') (Given ''1h''))
           (BotManager_init 0))))) = ''1h''"
  by (simp add: parse_BotControlRequest_def bot_control_def set_state_def BotManager_init_def)

text \<open>
  C10, amended. A control command with a valid action overwrites \<open>current_symbol\<close>
  (\<open>current_tf\<close>) with the request's symbol (timeframe) when that is a non-empty string
  and leaves it unchanged when it is \<open>null\<close> or empty; a request that omits both fields
  carries the defaults, so it resets them to BTCUSDT and 15m.
\<close>

theorem control_overwrites_symbol_tf:
  assumes "req_action r \<in> {''start'', ''pause'', ''stop''}"
  shows "current_symbol (snd (bot_control now r st))
           = (case req_symbol r of Some s \<Rightarrow> if s \<noteq> [] then s else current_symbol st
              | None \<Rightarrow> current_symbol st)
       \<and> current_tf (snd (bot_control now r st))
           = (case req_tf r of Some s \<Rightarrow> if s \<noteq> [] then s else current_tf st
              | None \<Rightarrow> current_tf st)
       \<and> current_symbol
           (snd (bot_control now (parse_BotControlRequest (req_action r) Omitted Omitted) st))
           = ''BTCUSDT''
       \<and> current_tf
           (snd (bot_control now (parse_BotControlRequest (req_action r) Omitted Omitted) st))
           = ''15m''"
  using assms
  by (auto simp add: bot_control_def set_state_def parse_BotControlRequest_def Let_def
      split: option.splits)

theorem control_overwrites_symbol_tf_witness:
  "req_action (parse_BotControlRequest ''stop'' (Given ''ETHUSDT'') Omitted)
     \<in> {''start'', ''pause'', ''stop''}
   \<and> current_symbol (snd (bot_control 1 (parse_BotControlRequest ''stop'' (Given ''ETHUSDT'') Omitted)
        (BotManager_init 0))) = ''ETHUSDT''
   \<and> current_tf (snd (bot_control 1 (parse_BotControlRequest ''stop'' (Given ''ETHUSDT'') Omitted)
        (BotManager_init 0))) = ''15m''
   \<and> current_symbol (snd (bot_control 1 (parse_BotControlRequest ''stop'' Omitted Omitted)
        (BotManager_init 0\<lparr>current_symbol := ''ETHUSDT''\<rparr>))) = ''BTCUSDT''"
  using control_overwrites_symbol_tf
      [where r = "parse_BotControlRequest ''stop'' (Given ''ETHUSDT'') Omitted" and now = 1
         and st = "BotManager_init 0"]
    control_overwrites_symbol_tf
      [where r = "parse_BotControlRequest ''stop'' (Given ''ETHUSDT'') Omitted" and now = 1
         and st = "BotManager_init 0\<lparr>current_symbol := ''ETHUSDT''\<rparr>"]
  by (simp add: parse_BotControlRequest_def)

section \<open>Price resolution: properties\<close>

lemma exchange_calls_record_call:
  "exchange_calls (record_call c w) = (if is_exchange_call c then exchange_calls w @ [c] else exchange_calls w)"
  by (simp add: exchange_calls_def record_call_def)

lemma get_price_fresh:
  assumes "store_record_fresh w symbol"
  shows "\<exists>p. fst (get_latest_price_from_influx w symbol) = Some p \<and> pr_source p = ''influx''
           \<and> fst (get_price w symbol) = Inr p"
    and "exchange_calls (snd (get_price w symbol)) = exchange_calls w"
  using assms
  by (auto simp add: store_record_fresh_def get_price_def get_latest_price_from_influx_def Let_def
      record_call_def exchange_calls_def split: option.splits if_splits)

lemma get_price_not_fresh:
  assumes "\<not> store_record_fresh w symbol"
  shows "fst (get_price w symbol) =
           (case binance_ticker_price w symbol of
              Inl e \<Rightarrow> Inl (HTTPException 404 (''Price not found for symbol '' @ symbol))
            | Inr d \<Rightarrow> Inr \<lparr>pr_symbol = fst d, pr_price = snd d, pr_timestamp = clock w,
                           pr_source = ''binance''\<rparr>)"
    and "exchange_calls (snd (get_price w symbol)) = exchange_calls w @ [BinanceTickerPrice symbol]"
  using assms
  by (auto simp add: store_record_fresh_def get_price_def get_latest_price_from_influx_def Let_def
      get_price_from_binance_def record_call_def exchange_calls_def
      split: option.splits if_splits sum.splits)

text \<open>
  C1. Price resolution returns the store's point, tagged \<open>influx\<close>, without a request
  to the exchange, when the store query yields a record of age at most 300 seconds; in
  every other case it sends one price request to the exchange and returns the value the
  exchange gives, tagged \<open>binance\<close>. So a point that is returned is tagged \<open>influx\<close>
  exactly when the store record is fresh, and \<open>binance\<close> exactly when it is not.
\<close>

theorem price_source_store_iff_fresh:
  "(store_record_fresh w symbol \<longrightarrow>
      (\<exists>p. fst (get_latest_price_from_influx w symbol) = Some p
           \<and> fst (get_price w symbol) = Inr p \<and> pr_source p = ''influx'')
      \<and> exchange_calls (snd (get_price w symbol)) = exchange_calls w)
   \<and> (\<not> store_record_fresh w symbol \<longrightarrow>
        exchange_calls (snd (get_price w symbol)) = exchange_calls w @ [BinanceTickerPrice symbol]
        \<and> (\<forall>d. binance_ticker_price w symbol = Inr d \<longrightarrow>
              fst (get_price w symbol)
                = Inr \<lparr>pr_symbol = fst d, pr_price = snd d, pr_timestamp = clock w,
                       pr_source = ''binance''\<rparr>))
   \<and> (\<forall>p. fst (get_price w symbol) = Inr p \<longrightarrow>
         (pr_source p = ''influx'' \<longleftrightarrow> store_record_fresh w symbol)
         \<and> (pr_source p = ''binance'' \<longleftrightarrow> \<not> store_record_fresh w symbol))"
proof (cases "store_record_fresh w symbol")
  case True
  from get_price_fresh [OF True] show ?thesis using True by auto
next
  case False
  from get_price_not_fresh [OF False] show ?thesis using False
    by (auto split: sum.splits)
qed

lemma example_fresh: "store_record_fresh example_world ''BTCUSDT''"
  by (simp add: store_record_fresh_def example_world_def get_latest_price_from_influx_def
      first_row_def seconds_def record_call_def)

lemma example_stale: "\<not> store_record_fresh (example_world\<lparr>clock := seconds 2000\<rparr>) ''BTCUSDT''"
  by (simp add: store_record_fresh_def example_world_def get_latest_price_from_influx_def
      first_row_def seconds_def record_call_def)

theorem price_source_store_iff_fresh_witness:
  "store_record_fresh example_world ''BTCUSDT''
   \<and> fst (get_price example_world ''BTCUSDT'')
       = Inr \<lparr>pr_symbol = ''BTCUSDT'', pr_price = 50000, pr_timestamp = seconds 900,
              pr_source = ''influx''\<rparr>
   \<and> exchange_calls (snd (get_price example_world ''BTCUSDT'')) = []
   \<and> \<not> store_record_fresh (example_world\<lparr>clock := seconds 2000\<rparr>) ''BTCUSDT''
   \<and> fst (get_price (example_world\<lparr>clock := seconds 2000\<rparr>) ''BTCUSDT'')
       = Inr \<lparr>pr_symbol = ''BTCUSDT'', pr_price = 50001, pr_timestamp = seconds 2000,
              pr_source = ''binance''\<rparr>
   \<and> exchange_calls (snd (get_price (example_world\<lparr>clock := seconds 2000\<rparr>) ''BTCUSDT''))
       = [BinanceTickerPrice ''BTCUSDT'']"
  using price_source_store_iff_fresh [of example_world "''BTCUSDT''"]
    price_source_store_iff_fresh [of "example_world\<lparr>clock := seconds 2000\<rparr>" "''BTCUSDT''"]
    example_fresh example_stale
  by (auto simp add: example_world_def get_latest_price_from_influx_def first_row_def
      record_call_def exchange_calls_def)

text \<open>
  C5. Price resolution fails only with the 404 error, and only when the store gives no
  fresh record and the exchange request fails. A store without client, a store query
  that raises and an empty answer are a miss: the exchange is asked. Whenever the
  exchange answers, resolution returns a point.
\<close>

theorem price_not_found_only_if_both_fail:
  "(\<forall>e. fst (get_price w symbol) = Inl e \<longrightarrow>
        e = HTTPException 404 (''Price not found for symbol '' @ symbol)
        \<and> \<not> store_record_fresh w symbol
        \<and> (\<exists>x. binance_ticker_price w symbol = Inl x))
   \<and> (\<not> influx_client w \<or> influx_query_error w \<noteq> None \<or> concat (price_tables w symbol) = [] \<longrightarrow>
        fst (get_latest_price_from_influx w symbol) = None
        \<and> exchange_calls (snd (get_price w symbol)) = exchange_calls w @ [BinanceTickerPrice symbol])
   \<and> (\<forall>d. binance_ticker_price w symbol = Inr d \<longrightarrow>
        (\<exists>p. fst (get_price w symbol) = Inr p)
        \<and> (\<not> store_record_fresh w symbol \<longrightarrow>
             fst (get_price w symbol)
               = Inr \<lparr>pr_symbol = fst d, pr_price = snd d, pr_timestamp = clock w,
                      pr_source = ''binance''\<rparr>))"
proof -
  let ?store_miss = "\<not> influx_client w \<or> influx_query_error w \<noteq> None
      \<or> concat (price_tables w symbol) = []"
  have miss: "fst (get_latest_price_from_influx w symbol) = None" if "?store_miss"
    using that
    by (auto simp add: get_latest_price_from_influx_def first_row_def Let_def
        simp del: concat_eq_Nil_conv split: option.splits)
  show ?thesis
  proof (cases "store_record_fresh w symbol")
    case True
    have "fst (get_latest_price_from_influx w symbol) \<noteq> None"
      using True by (auto simp add: store_record_fresh_def split: option.splits)
    with miss have no_miss: "\<not> ?store_miss" by blast
    from get_price_fresh(1) [OF True] obtain p where p: "fst (get_price w symbol) = Inr p"
      by blast
    from p no_miss True show ?thesis by auto
  next
    case False
    note np = get_price_not_fresh [OF False]
    have a: "\<forall>e. fst (get_price w symbol) = Inl e \<longrightarrow>
        e = HTTPException 404 (''Price not found for symbol '' @ symbol)
        \<and> \<not> store_record_fresh w symbol
        \<and> (\<exists>x. binance_ticker_price w symbol = Inl x)"
      using np(1) False by (cases "binance_ticker_price w symbol") auto
    have b: "?store_miss \<longrightarrow>
        fst (get_latest_price_from_influx w symbol) = None
        \<and> exchange_calls (snd (get_price w symbol)) = exchange_calls w @ [BinanceTickerPrice symbol]"
      using miss np(2) by blast
    have c: "\<forall>d. binance_ticker_price w symbol = Inr d \<longrightarrow>
        (\<exists>p. fst (get_price w symbol) = Inr p)
        \<and> (\<not> store_record_fresh w symbol \<longrightarrow>
             fst (get_price w symbol)
               = Inr \<lparr>pr_symbol = fst d, pr_price = snd d, pr_timestamp = clock w,
                      pr_source = ''binance''\<rparr>)"
      using np(1) by simp
    from a b c show ?thesis by blast
  qed
qed

theorem price_not_found_only_if_both_fail_witness:
  "influx_query_error (example_world\<lparr>influx_query_error := Some (Exn ''connection refused'')\<rparr>) \<noteq> None
   \<and> fst (get_price (example_world\<lparr>influx_query_error := Some (Exn ''connection refused'')\<rparr>) ''BTCUSDT'')
      = Inr \<lparr>pr_symbol = ''BTCUSDT'', pr_price = 50001, pr_timestamp = seconds 1000,
              pr_source = ''binance''\<rparr>
   \<and> fst (get_price (example_world\<lparr>influx_query_error := Some (Exn ''connection refused''),
                                  binance_ticker_price := (\<lambda>s. Inl (Exn ''timeout''))\<rparr>) ''BTCUSDT'')
      = Inl (HTTPException 404 ''Price not found for symbol BTCUSDT'')
   \<and> \<not> store_record_fresh (example_world\<lparr>influx_query_error := Some (Exn ''connection refused''),
                                  binance_ticker_price := (\<lambda>s. Inl (Exn ''timeout''))\<rparr>) ''BTCUSDT''"
  using price_not_found_only_if_both_fail
      [of "example_world\<lparr>influx_query_error := Some (Exn ''connection refused'')\<rparr>" "''BTCUSDT''"]
    price_not_found_only_if_both_fail
      [of "example_world\<lparr>influx_query_error := Some (Exn ''connection refused''),
                                  binance_ticker_price := (\<lambda>s. Inl (Exn ''timeout''))\<rparr>" "''BTCUSDT''"]
  by (auto simp add: example_world_def get_price_def get_latest_price_from_influx_def
      get_price_from_binance_def record_call_def store_record_fresh_def)

section \<open>Candle resolution: properties\<close>

lemma exchange_calls_get_candles_from_influx:
  "exchange_calls (snd (get_candles_from_influx w symbol interval limit)) = exchange_calls w"
  by (simp add: get_candles_from_influx_def Let_def exchange_calls_record_call
      split: option.splits sum.splits)

lemma binance_klines_get_candles_from_influx:
  "binance_klines (snd (get_candles_from_influx w symbol interval limit)) = binance_klines w"
  by (simp add: get_candles_from_influx_def Let_def record_call_def
      split: option.splits sum.splits)

lemma fst_get_candles_from_binance:
  "fst (get_candles_from_binance w symbol interval limit) =
     (case binance_klines w symbol interval limit of
        Inl e \<Rightarrow> []
      | Inr klines \<Rightarrow> map (candle_of_kline symbol interval) klines)"
  by (simp add: get_candles_from_binance_def Let_def split: sum.splits)

lemma snd_get_candles_from_binance:
  "snd (get_candles_from_binance w symbol interval limit) =
     record_call (BinanceKlines symbol interval limit) w"
  by (simp add: get_candles_from_binance_def Let_def split: sum.splits)

lemma exchange_calls_write_candles_to_influx:
  "exchange_calls (snd (write_candles_to_influx w candles)) = exchange_calls w"
  by (simp add: write_candles_to_influx_def Let_def exchange_calls_def record_call_def
      split: option.splits)

lemma candles_of_rows_raises:
  "candles_of_rows symbol interval rows = (case rows of [] \<Rightarrow> Inr [] | row # _ \<Rightarrow>
     Inl (Exn ''AttributeError: FluxRecord object has no attribute get''))"
  by (cases rows) (simp_all add: candle_of_row_def FluxRecord_get_def)

lemma fst_get_candles_from_influx:
  "fst (get_candles_from_influx w symbol interval limit) = []"
  by (simp add: get_candles_from_influx_def Let_def candles_of_rows_raises
      split: option.splits list.splits)

lemma get_chart_candles_exchange:
  "fst (get_chart_candles w symbol interval limit) =
     (if fst (get_candles_from_binance w symbol interval limit) \<noteq> []
      then Inr \<lparr>ch_candles = fst (get_candles_from_binance w symbol interval limit),
            ch_symbol = symbol, ch_interval = interval,
            ch_count = int (length (fst (get_candles_from_binance w symbol interval limit))),
            ch_source = ''binance''\<rparr>
      else Inl (HTTPException 404 (''No candle data available for '' @ symbol @ '' '' @ interval)))"
  "exchange_calls (snd (get_chart_candles w symbol interval limit))
           = exchange_calls w @ [BinanceKlines symbol interval limit]"
proof -
  obtain sc w1 where s: "get_candles_from_influx w symbol interval limit = (sc, w1)"
    by (cases "get_candles_from_influx w symbol interval limit")
  obtain ec w2 where e: "get_candles_from_binance w1 symbol interval limit = (ec, w2)"
    by (cases "get_candles_from_binance w1 symbol interval limit")
  obtain n w3 where wr: "write_candles_to_influx w2 ec = (n, w3)"
    by (cases "write_candles_to_influx w2 ec")
  have sc: "sc = []"
    using s fst_get_candles_from_influx [of w symbol interval limit] by simp
  have w1: "binance_klines w1 = binance_klines w" "exchange_calls w1 = exchange_calls w"
    using s binance_klines_get_candles_from_influx [of w symbol interval limit]
      exchange_calls_get_candles_from_influx [of w symbol interval limit] by simp_all
  have ec: "ec = fst (get_candles_from_binance w symbol interval limit)"
    using e w1 fst_get_candles_from_binance [of w1 symbol interval limit]
    by (simp add: fst_get_candles_from_binance)
  have w2: "exchange_calls w2 = exchange_calls w @ [BinanceKlines symbol interval limit]"
    using e w1 snd_get_candles_from_binance [of w1 symbol interval limit]
    by (simp add: exchange_calls_record_call)
  have w3: "exchange_calls w3 = exchange_calls w2"
    using wr exchange_calls_write_candles_to_influx [of w2 ec] by simp
  show "fst (get_chart_candles w symbol interval limit) =
     (if fst (get_candles_from_binance w symbol interval limit) \<noteq> []
      then Inr \<lparr>ch_candles = fst (get_candles_from_binance w symbol interval limit),
            ch_symbol = symbol, ch_interval = interval,
            ch_count = int (length (fst (get_candles_from_binance w symbol interval limit))),
            ch_source = ''binance''\<rparr>
      else Inl (HTTPException 404 (''No candle data available for '' @ symbol @ '' '' @ interval)))"
    using sc s e wr ec by (auto simp add: get_chart_candles_def)
  show "exchange_calls (snd (get_chart_candles w symbol interval limit))
           = exchange_calls w @ [BinanceKlines symbol interval limit]"
    using sc s e wr w2 w3 by (auto simp add: get_chart_candles_def)
qed

lemmas eval_defs = example_world_def
      get_candles_from_binance_def write_candles_to_influx_def record_call_def
      exchange_calls_def candle_of_kline_def Let_def in_series_def in_range_def point_time_def
      seconds_def check_influx_candle_count_def point_of_candle_def
      write_points_def example_request_def example_fields_def example_candle_def

text \<open>
  C2. The claim: when the store holds at least \<open>min 50 (limit div 2)\<close> candles for the
  series, candle resolution returns exactly these candles, tagged with the store source,
  and never calls the exchange; otherwise it fetches \<open>limit\<close> candles from the exchange
  and returns them tagged with the exchange source. The code does not do the first half.
  Here the store holds 100 one-minute candles of BTCUSDT, all within the 7 days the
  query selects, and \<open>limit\<close> is 100, so 100 rows come back, at least
  \<open>min 50 (100 div 2) = 50\<close>. Building the first dictionary raises, the store reader
  returns no candle, and resolution calls the exchange and returns its candle, tagged
  \<open>binance\<close>.
\<close>

theorem chart_candles_warm_store_calls_exchange:
  "length (filter (\<lambda>p. in_series ''BTCUSDT'' ''1m'' (fst p)
                       \<and> in_range (example_world\<lparr>clock := seconds 6000, candle_points := warm_store\<rparr>)
                            (7 * 86400) (point_time p))
             (candle_points (example_world\<lparr>clock := seconds 6000, candle_points := warm_store\<rparr>)))
     = 100
   \<and> min 50 (100 div 2) \<le> (100 :: int)
   \<and> fst (get_candles_from_influx
            (example_world\<lparr>clock := seconds 6000, candle_points := warm_store\<rparr>)
            ''BTCUSDT'' ''1m'' 100) = []
   \<and> fst (get_chart_candles
            (example_world\<lparr>clock := seconds 6000, candle_points := warm_store\<rparr>)
            ''BTCUSDT'' ''1m'' 100)
       = Inr \<lparr>ch_candles = [example_candle], ch_symbol = ''BTCUSDT'', ch_interval = ''1m'',
              ch_count = 1, ch_source = ''binance''\<rparr>
   \<and> exchange_calls (snd (get_chart_candles
            (example_world\<lparr>clock := seconds 6000, candle_points := warm_store\<rparr>)
            ''BTCUSDT'' ''1m'' 100))
       = [BinanceKlines ''BTCUSDT'' ''1m'' 100]"
proof -
  let ?W = "example_world\<lparr>clock := seconds 6000, candle_points := warm_store\<rparr>"
  let ?P = "\<lambda>p. in_series ''BTCUSDT'' ''1m'' (fst p) \<and> in_range ?W (7 * 86400) (point_time p)"
  have "\<forall>p \<in> set warm_store. ?P p"
    by (auto simp add: warm_store_def in_series_def in_range_def point_time_def seconds_def
        example_world_def)
  then have "filter ?P warm_store = warm_store" by (simp only: filter_True)
  moreover have "length warm_store = 100" by (simp add: warm_store_def)
  ultimately have rows: "length (filter ?P (candle_points ?W)) = 100" by simp
  have reader: "fst (get_candles_from_influx ?W ''BTCUSDT'' ''1m'' 100) = []"
    by (rule fst_get_candles_from_influx)
  have fetched: "fst (get_candles_from_binance ?W ''BTCUSDT'' ''1m'' 100) = [example_candle]"
    by (simp add: fst_get_candles_from_binance example_world_def candle_of_kline_def
        example_candle_def)
  have response: "fst (get_chart_candles ?W ''BTCUSDT'' ''1m'' 100)
       = Inr \<lparr>ch_candles = [example_candle], ch_symbol = ''BTCUSDT'', ch_interval = ''1m'',
              ch_count = 1, ch_source = ''binance''\<rparr>"
    by (simp add: get_chart_candles_exchange(1) fetched)
  have sent: "exchange_calls (snd (get_chart_candles ?W ''BTCUSDT'' ''1m'' 100))
       = [BinanceKlines ''BTCUSDT'' ''1m'' 100]"
    by (simp add: get_chart_candles_exchange(2)) (simp add: exchange_calls_def example_world_def)
  from rows reader response sent show ?thesis by simp
qed

section \<open>Backfill: properties\<close>

lemma update_commute_present:
  "k \<in> fst ` set al \<Longrightarrow> k \<noteq> k' \<Longrightarrow>
     AList.update k' v' (AList.update k v al) = AList.update k v (AList.update k' v' al)"
  by (induction al) auto

lemma keys_write_points: "fst ` set (write_points ps s) = fst ` set ps \<union> fst ` set s"
  unfolding write_points_def
  by (induction ps arbitrary: s) (auto simp add: dom_update)

lemma map_of_write_points_other:
  "k \<notin> fst ` set ps \<Longrightarrow> map_of (write_points ps s) k = map_of s k"
  unfolding write_points_def
  by (induction ps arbitrary: s) (auto simp add: update_conv')

lemma write_points_Cons:
  "write_points (p # ps) s = write_points ps (AList.update (fst p) (snd p) s)"
  by (simp add: write_points_def)

lemma write_points_absorb:
  "fst p \<in> fst ` set ps \<Longrightarrow> fst p \<in> fst ` set s \<Longrightarrow>
     write_points ps (AList.update (fst p) (snd p) s) = write_points ps s"
proof (induction ps arbitrary: s)
  case Nil
  then show ?case by simp
next
  case (Cons q qs)
  show ?case
  proof (cases "fst q = fst p")
    case True
    then show ?thesis by (simp add: write_points_Cons)
  next
    case False
    with Cons.prems have in_qs: "fst p \<in> fst ` set qs" by auto
    have in_s: "fst p \<in> fst ` set (AList.update (fst q) (snd q) s)"
      using Cons.prems(2) by (simp add: dom_update)
    have "AList.update (fst q) (snd q) (AList.update (fst p) (snd p) s)
        = AList.update (fst p) (snd p) (AList.update (fst q) (snd q) s)"
      using update_commute_present [OF Cons.prems(2), of "fst q"] False by simp
    then show ?thesis
      using Cons.IH [OF in_qs in_s] by (simp add: write_points_Cons)
  qed
qed

lemma write_points_idem: "write_points ps (write_points ps s) = write_points ps s"
proof (induction ps arbitrary: s)
  case Nil
  then show ?case by (simp add: write_points_def)
next
  case (Cons p qs)
  let ?t = "AList.update (fst p) (snd p) s"
  let ?u = "write_points qs ?t"
  have u_idem: "write_points qs ?u = ?u" by (rule Cons.IH)
  have "write_points qs (AList.update (fst p) (snd p) ?u) = ?u"
  proof (cases "fst p \<in> fst ` set qs")
    case True
    have "fst p \<in> fst ` set ?u" using True by (simp add: keys_write_points)
    from write_points_absorb [OF True this] u_idem show ?thesis by simp
  next
    case False
    have "map_of ?u (fst p) = Some (snd p)"
      using map_of_write_points_other [OF False] by (simp add: update_conv')
    then have "AList.update (fst p) (snd p) ?u = ?u" by (rule update_triv)
    with u_idem show ?thesis by simp
  qed
  then show ?case by (simp add: write_points_Cons)
qed

lemma fst_check_influx_candle_count:
  "fst (check_influx_candle_count w symbol interval hours) =
     (if influx_client w \<and> influx_query_error w = None
      then int (length (filter (\<lambda>p. in_series symbol interval (fst p)
                                    \<and> in_range w (hours * 3600) (point_time p))
                                 (candle_points w)))
      else 0)"
  by (simp add: check_influx_candle_count_def Let_def split: option.splits)

lemma snd_check_influx_candle_count:
  "snd (check_influx_candle_count w symbol interval hours) =
     (if influx_client w then record_call (InfluxCountQuery symbol interval hours) w else w)"
  by (simp add: check_influx_candle_count_def Let_def split: option.splits)

lemma fst_check_cong:
  assumes "influx_client w' = influx_client w" "influx_query_error w' = influx_query_error w"
    "candle_points w' = candle_points w" "clock w' = clock w"
  shows "fst (check_influx_candle_count w' symbol interval hours)
       = fst (check_influx_candle_count w symbol interval hours)"
  using assms by (simp add: fst_check_influx_candle_count in_range_def)

lemma fst_write_candles_to_influx:
  "fst (write_candles_to_influx w candles) =
     (if write_succeeds w candles then int (length candles) else 0)"
  by (auto simp add: write_candles_to_influx_def write_succeeds_def Let_def split: option.splits)

lemma store_write_candles_to_influx:
  "candle_points (snd (write_candles_to_influx w candles)) =
     (if write_succeeds w candles
      then write_points (map point_of_candle candles) (candle_points w)
      else candle_points w)"
  by (auto simp add: write_candles_to_influx_def write_succeeds_def Let_def record_call_def
      split: option.splits)

lemma frame_record_call [simp]:
  "clock (record_call c w) = clock w"
  "influx_client (record_call c w) = influx_client w"
  "write_api (record_call c w) = write_api w"
  "influx_query_error (record_call c w) = influx_query_error w"
  "influx_write_error (record_call c w) = influx_write_error w"
  "price_tables (record_call c w) = price_tables w"
  "candle_points (record_call c w) = candle_points w"
  "binance_ticker_price (record_call c w) = binance_ticker_price w"
  "binance_klines (record_call c w) = binance_klines w"
  "fromtimestamp_ok (record_call c w) = fromtimestamp_ok w"
  by (simp_all add: record_call_def)

lemma frame_write_candles_to_influx:
  "clock (snd (write_candles_to_influx w cs)) = clock w"
  "influx_client (snd (write_candles_to_influx w cs)) = influx_client w"
  "write_api (snd (write_candles_to_influx w cs)) = write_api w"
  "influx_query_error (snd (write_candles_to_influx w cs)) = influx_query_error w"
  "influx_write_error (snd (write_candles_to_influx w cs)) = influx_write_error w"
  "binance_klines (snd (write_candles_to_influx w cs)) = binance_klines w"
  "fromtimestamp_ok (snd (write_candles_to_influx w cs)) = fromtimestamp_ok w"
  by (simp_all add: write_candles_to_influx_def Let_def split: option.splits)

lemma write_succeeds_cong:
  assumes "write_api w' = write_api w" "fromtimestamp_ok w' = fromtimestamp_ok w"
    "influx_write_error w' = influx_write_error w"
  shows "write_succeeds w' cs = write_succeeds w cs"
  using assms by (simp add: write_succeeds_def)

lemma backfill_candles_unfold:
  "backfill_candles w r =
     (let n = fst (check_influx_candle_count w (bf_symbol r) (bf_interval r) 24);
          w1 = snd (check_influx_candle_count w (bf_symbol r) (bf_interval r) 24);
          cs = fst (get_candles_from_binance w (bf_symbol r) (bf_interval r) (bf_limit r));
          w2 = record_call (BinanceKlines (bf_symbol r) (bf_interval r) (bf_limit r)) w1
      in if 100 \<le> n
         then (Inr \<lparr>br_symbol = bf_symbol r, br_interval = bf_interval r, br_candlesWritten = 0,
                    br_status = ''skipped'',
                    br_message = ''Sufficient data exists ('' @ str_int n @ '' candles >= ''
                                 @ str_int 100 @ '')''\<rparr>, w1)
         else if cs = []
         then (Inr \<lparr>br_symbol = bf_symbol r, br_interval = bf_interval r, br_candlesWritten = 0,
                    br_status = ''failed'',
                    br_message = ''No candle data available from Binance''\<rparr>, w2)
         else (Inr \<lparr>br_symbol = bf_symbol r, br_interval = bf_interval r,
                    br_candlesWritten = fst (write_candles_to_influx w2 cs),
                    br_status = ''success'',
                    br_message = ''Successfully backfilled ''
                                 @ str_int (fst (write_candles_to_influx w2 cs)) @ '' candles''\<rparr>,
               snd (write_candles_to_influx w2 cs)))"
proof -
  have k: "binance_klines (snd (check_influx_candle_count w (bf_symbol r) (bf_interval r) 24))
      = binance_klines w"
    by (simp add: snd_check_influx_candle_count)
  show ?thesis
    by (simp add: backfill_candles_def case_prod_beta Let_def fst_get_candles_from_binance
        snd_get_candles_from_binance k)
qed

lemma str_int_100: "str_int 100 = ''100''"
  by (simp add: str_int_def digits.simps)

lemma contains_self_append: "contains xs (xs @ b)"
proof (cases "xs @ b")
  case Nil
  then show ?thesis by simp
next
  case (Cons a l)
  have "take (length xs) (xs @ b) = xs" by simp
  with Cons have "contains xs (a # l)" by simp
  with Cons show ?thesis by simp
qed

lemma contains_infix: "contains xs (a @ xs @ b)"
  by (induction a) (auto simp add: contains_self_append)

lemma frame_check [simp]:
  "clock (snd (check_influx_candle_count w s i h)) = clock w"
  "influx_client (snd (check_influx_candle_count w s i h)) = influx_client w"
  "write_api (snd (check_influx_candle_count w s i h)) = write_api w"
  "influx_query_error (snd (check_influx_candle_count w s i h)) = influx_query_error w"
  "influx_write_error (snd (check_influx_candle_count w s i h)) = influx_write_error w"
  "candle_points (snd (check_influx_candle_count w s i h)) = candle_points w"
  "binance_klines (snd (check_influx_candle_count w s i h)) = binance_klines w"
  "fromtimestamp_ok (snd (check_influx_candle_count w s i h)) = fromtimestamp_ok w"
  by (simp_all add: snd_check_influx_candle_count)

lemma exchange_calls_check [simp]:
  "exchange_calls (snd (check_influx_candle_count w s i h)) = exchange_calls w"
  by (simp add: snd_check_influx_candle_count exchange_calls_record_call)

lemma backfill_fst:
  "fst (backfill_candles w r) =
     (if 100 \<le> store_count w r
      then Inr \<lparr>br_symbol = bf_symbol r, br_interval = bf_interval r, br_candlesWritten = 0,
                br_status = ''skipped'',
                br_message = ''Sufficient data exists ('' @ str_int (store_count w r)
                             @ '' candles >= 100)''\<rparr>
      else if fetched_candles w r = []
      then Inr \<lparr>br_symbol = bf_symbol r, br_interval = bf_interval r, br_candlesWritten = 0,
                br_status = ''failed'',
                br_message = ''No candle data available from Binance''\<rparr>
      else Inr \<lparr>br_symbol = bf_symbol r, br_interval = bf_interval r,
                br_candlesWritten =
                  (if write_succeeds w (fetched_candles w r)
                   then int (length (fetched_candles w r)) else 0),
                br_status = ''success'',
                br_message = ''Successfully backfilled ''
                  @ str_int (if write_succeeds w (fetched_candles w r)
                             then int (length (fetched_candles w r)) else 0)
                  @ '' candles''\<rparr>)"
proof -
  have ws: "write_succeeds
      (record_call c (snd (check_influx_candle_count w (bf_symbol r) (bf_interval r) 24))) cs
      = write_succeeds w cs" for c cs
    by (rule write_succeeds_cong) simp_all
  show ?thesis
    by (simp add: backfill_candles_unfold Let_def fst_write_candles_to_influx ws str_int_100)
qed

lemma backfill_store:
  "candle_points (snd (backfill_candles w r)) =
     (if store_count w r < 100 \<and> write_succeeds w (fetched_candles w r)
      then write_points (map point_of_candle (fetched_candles w r)) (candle_points w)
      else candle_points w)"
proof -
  have ws: "write_succeeds
      (record_call c (snd (check_influx_candle_count w (bf_symbol r) (bf_interval r) 24))) cs
      = write_succeeds w cs" for c cs
    by (rule write_succeeds_cong) simp_all
  have "\<not> write_succeeds w []" by (simp add: write_succeeds_def)
  then show ?thesis
    by (auto simp add: backfill_candles_unfold Let_def store_write_candles_to_influx ws)
qed

lemma backfill_exchange_calls:
  "exchange_calls (snd (backfill_candles w r)) =
     (if 100 \<le> store_count w r then exchange_calls w
      else exchange_calls w @ [BinanceKlines (bf_symbol r) (bf_interval r) (bf_limit r)])"
  by (simp add: backfill_candles_unfold Let_def exchange_calls_write_candles_to_influx
      exchange_calls_record_call)

lemma backfill_frame:
  "clock (snd (backfill_candles w r)) = clock w"
  "influx_client (snd (backfill_candles w r)) = influx_client w"
  "write_api (snd (backfill_candles w r)) = write_api w"
  "influx_query_error (snd (backfill_candles w r)) = influx_query_error w"
  "influx_write_error (snd (backfill_candles w r)) = influx_write_error w"
  "binance_klines (snd (backfill_candles w r)) = binance_klines w"
  "fromtimestamp_ok (snd (backfill_candles w r)) = fromtimestamp_ok w"
  by (simp_all add: backfill_candles_unfold Let_def frame_write_candles_to_influx)

lemma warm_store_count:
  "store_count (example_world\<lparr>clock := seconds 6000, candle_points := warm_store\<rparr>)
     (example_request 500) = 100"
proof -
  let ?P = "\<lambda>p. in_series ''BTCUSDT'' ''1m'' (fst p)
      \<and> in_range (example_world\<lparr>clock := seconds 6000, candle_points := warm_store\<rparr>) (24 * 3600)
           (point_time p)"
  have "\<forall>p \<in> set warm_store. ?P p"
    by (auto simp add: warm_store_def in_series_def in_range_def point_time_def seconds_def
        example_world_def)
  then have "filter ?P warm_store = warm_store" by (simp only: filter_True)
  moreover have "length warm_store = 100" by (simp add: warm_store_def)
  ultimately show ?thesis
    by (simp add: fst_check_influx_candle_count example_request_def example_world_def)
qed

text \<open>
  C6. If the store counts at least 100 candles of the series in the last 24 hours,
  backfill returns \<open>skipped\<close> with 0 candles written, the count is part of the message,
  and no request goes to the exchange.
\<close>

theorem backfill_skips_at_threshold:
  assumes "100 \<le> store_count w r"
  shows "fst (backfill_candles w r)
           = Inr \<lparr>br_symbol = bf_symbol r, br_interval = bf_interval r, br_candlesWritten = 0,
                  br_status = ''skipped'',
                  br_message = ''Sufficient data exists ('' @ str_int (store_count w r)
                               @ '' candles >= 100)''\<rparr>
       \<and> contains (str_int (store_count w r)) (reason_of (fst (backfill_candles w r)))
       \<and> exchange_calls (snd (backfill_candles w r)) = exchange_calls w"
  using assms contains_infix [of "str_int (store_count w r)" "''Sufficient data exists (''"
      "'' candles >= 100)''"]
  by (simp add: backfill_fst backfill_exchange_calls reason_of_def)

theorem backfill_skips_at_threshold_witness:
  "100 \<le> store_count (example_world\<lparr>clock := seconds 6000, candle_points := warm_store\<rparr>)
            (example_request 500)
   \<and> fst (backfill_candles (example_world\<lparr>clock := seconds 6000, candle_points := warm_store\<rparr>)
            (example_request 500))
       = Inr \<lparr>br_symbol = ''BTCUSDT'', br_interval = ''1m'', br_candlesWritten = 0,
              br_status = ''skipped'',
              br_message = ''Sufficient data exists (100 candles >= 100)''\<rparr>
   \<and> contains ''100'' ''Sufficient data exists (100 candles >= 100)''
   \<and> exchange_calls (snd (backfill_candles
        (example_world\<lparr>clock := seconds 6000, candle_points := warm_store\<rparr>)
        (example_request 500))) = []"
  using backfill_skips_at_threshold
      [of "example_world\<lparr>clock := seconds 6000, candle_points := warm_store\<rparr>"
          "example_request 500"]
  by (simp add: warm_store_count str_int_100 reason_of_def)
    (simp add: example_request_def example_world_def exchange_calls_def)

text \<open>
  C7, as stated, fails: the exchange request raises \<open>Read timed out\<close>; backfill
  returns \<open>failed\<close>, and its message does not contain the text of the error.
\<close>

theorem backfill_failure_hides_error_text:
  "binance_klines (example_world\<lparr>binance_klines := (\<lambda>s i l. Inl (Exn ''Read timed out''))\<rparr>)
      ''BTCUSDT'' ''1m'' 100 = Inl (Exn ''Read timed out'')
   \<and> fst (backfill_candles
        (example_world\<lparr>binance_klines := (\<lambda>s i l. Inl (Exn ''Read timed out''))\<rparr>)
        (example_request 100))
       = Inr \<lparr>br_symbol = ''BTCUSDT'', br_interval = ''1m'', br_candlesWritten = 0,
              br_status = ''failed'',
              br_message = ''No candle data available from Binance''\<rparr>
   \<and> \<not> contains ''Read timed out''
        (reason_of (fst (backfill_candles
           (example_world\<lparr>binance_klines := (\<lambda>s i l. Inl (Exn ''Read timed out''))\<rparr>)
           (example_request 100))))"
  by (simp add: backfill_candles_def reason_of_def eval_defs)

text \<open>
  C7, amended. When the store counts fewer than 100 candles and the exchange request
  raises, backfill sends this one request only, writes nothing, and returns \<open>failed\<close>
  with 0 candles written and the fixed message \<open>No candle data available from Binance\<close>.
\<close>

theorem backfill_failed_fixed_reason:
  assumes "store_count w r < 100"
    and "binance_klines w (bf_symbol r) (bf_interval r) (bf_limit r) = Inl e"
  shows "fst (backfill_candles w r)
           = Inr \<lparr>br_symbol = bf_symbol r, br_interval = bf_interval r, br_candlesWritten = 0,
                  br_status = ''failed'',
                  br_message = ''No candle data available from Binance''\<rparr>
       \<and> exchange_calls (snd (backfill_candles w r))
           = exchange_calls w @ [BinanceKlines (bf_symbol r) (bf_interval r) (bf_limit r)]
       \<and> candle_points (snd (backfill_candles w r)) = candle_points w"
proof -
  have "fetched_candles w r = []" using assms(2) by (simp add: fst_get_candles_from_binance)
  then show ?thesis using assms(1)
    by (simp add: backfill_fst backfill_exchange_calls backfill_store write_succeeds_def)
qed

theorem backfill_failed_fixed_reason_witness:
  "store_count (example_world\<lparr>binance_klines := (\<lambda>s i l. Inl (Exn ''Read timed out''))\<rparr>)
      (example_request 100) < 100
   \<and> fst (backfill_candles
        (example_world\<lparr>binance_klines := (\<lambda>s i l. Inl (Exn ''Read timed out''))\<rparr>)
        (example_request 100))
       = Inr \<lparr>br_symbol = ''BTCUSDT'', br_interval = ''1m'', br_candlesWritten = 0,
              br_status = ''failed'',
              br_message = ''No candle data available from Binance''\<rparr>
   \<and> exchange_calls (snd (backfill_candles
        (example_world\<lparr>binance_klines := (\<lambda>s i l. Inl (Exn ''Read timed out''))\<rparr>)
        (example_request 100)))
       = [BinanceKlines ''BTCUSDT'' ''1m'' 100]"
  using backfill_failed_fixed_reason
      [of "example_world\<lparr>binance_klines := (\<lambda>s i l. Inl (Exn ''Read timed out''))\<rparr>"
          "example_request 100" "Exn ''Read timed out''"]
  by (simp add: eval_defs)

text \<open>
  C4, as stated, fails: with an empty store and an exchange that answers one candle,
  the first backfill reports \<open>success\<close> with 1 candle written, and the second one, run
  on the world the first one left, reports \<open>success\<close> with 1 candle written again.
\<close>

theorem backfill_second_call_writes_again:
  "fst (backfill_candles example_world (example_request 1))
     = Inr \<lparr>br_symbol = ''BTCUSDT'', br_interval = ''1m'', br_candlesWritten = 1,
            br_status = ''success'', br_message = ''Successfully backfilled 1 candles''\<rparr>
   \<and> fst (backfill_candles (snd (backfill_candles example_world (example_request 1)))
           (example_request 1))
     = Inr \<lparr>br_symbol = ''BTCUSDT'', br_interval = ''1m'', br_candlesWritten = 1,
            br_status = ''success'', br_message = ''Successfully backfilled 1 candles''\<rparr>"
  by (simp add: backfill_candles_def eval_defs str_int_def digits.simps)

text \<open>
  C4, amended. Backfill is idempotent in what it writes, not in the count it reports.
  A second invocation, at any later reading \<open>t\<close> of the clock and with the store as the
  first invocation left it and the exchange data unchanged, reports \<open>skipped\<close> when the
  store then counts at least 100 candles in its last 24 hours, \<open>failed\<close> with 0 written
  when the exchange gives none, and otherwise \<open>success\<close> with the number of candles it
  fetched and handed to the write again (0 when the write does not go through). When
  the first invocation was not skipped, the second one leaves the stored candles as the
  first one left them.
\<close>

theorem backfill_twice_writes_idempotent:
  "fst (backfill_candles ((snd (backfill_candles w r))\<lparr>clock := t\<rparr>) r) =
       (if 100 \<le> store_count ((snd (backfill_candles w r))\<lparr>clock := t\<rparr>) r
        then Inr \<lparr>br_symbol = bf_symbol r, br_interval = bf_interval r, br_candlesWritten = 0,
                  br_status = ''skipped'',
                  br_message = ''Sufficient data exists (''
                    @ str_int (store_count ((snd (backfill_candles w r))\<lparr>clock := t\<rparr>) r)
                    @ '' candles >= 100)''\<rparr>
        else if fetched_candles w r = []
        then Inr \<lparr>br_symbol = bf_symbol r, br_interval = bf_interval r, br_candlesWritten = 0,
                  br_status = ''failed'',
                  br_message = ''No candle data available from Binance''\<rparr>
        else Inr \<lparr>br_symbol = bf_symbol r, br_interval = bf_interval r,
                  br_candlesWritten =
                    (if write_succeeds w (fetched_candles w r)
                     then int (length (fetched_candles w r)) else 0),
                  br_status = ''success'',
                  br_message = ''Successfully backfilled ''
                    @ str_int (if write_succeeds w (fetched_candles w r)
                               then int (length (fetched_candles w r)) else 0)
                    @ '' candles''\<rparr>)
   \<and> (store_count w r < 100 \<longrightarrow>
        candle_points (snd (backfill_candles ((snd (backfill_candles w r))\<lparr>clock := t\<rparr>) r))
          = candle_points (snd (backfill_candles w r)))"
proof -
  let ?w1 = "snd (backfill_candles w r)"
  let ?w2 = "?w1\<lparr>clock := t\<rparr>"
  let ?ps = "map point_of_candle (fetched_candles w r)"
  have fetched: "fetched_candles ?w2 r = fetched_candles w r"
    by (simp add: fst_get_candles_from_binance backfill_frame)
  have ws: "write_succeeds ?w2 cs = write_succeeds w cs" for cs
    by (rule write_succeeds_cong) (simp_all add: backfill_frame)
  have response: "fst (backfill_candles ?w2 r) =
       (if 100 \<le> store_count ?w2 r
        then Inr \<lparr>br_symbol = bf_symbol r, br_interval = bf_interval r, br_candlesWritten = 0,
                  br_status = ''skipped'',
                  br_message = ''Sufficient data exists ('' @ str_int (store_count ?w2 r)
                    @ '' candles >= 100)''\<rparr>
        else if fetched_candles w r = []
        then Inr \<lparr>br_symbol = bf_symbol r, br_interval = bf_interval r, br_candlesWritten = 0,
                  br_status = ''failed'',
                  br_message = ''No candle data available from Binance''\<rparr>
        else Inr \<lparr>br_symbol = bf_symbol r, br_interval = bf_interval r,
                  br_candlesWritten =
                    (if write_succeeds w (fetched_candles w r)
                     then int (length (fetched_candles w r)) else 0),
                  br_status = ''success'',
                  br_message = ''Successfully backfilled ''
                    @ str_int (if write_succeeds w (fetched_candles w r)
                               then int (length (fetched_candles w r)) else 0)
                    @ '' candles''\<rparr>)"
    by (simp only: backfill_fst [of ?w2 r] fetched ws)
  have store: "candle_points (snd (backfill_candles ?w2 r)) = candle_points ?w1"
    if first: "store_count w r < 100"
  proof (cases "store_count ?w2 r < 100 \<and> write_succeeds w (fetched_candles w r)")
    case False
    then show ?thesis by (auto simp add: backfill_store [of ?w2 r] fetched ws)
  next
    case True
    then have second: "candle_points (snd (backfill_candles ?w2 r))
        = write_points ?ps (candle_points ?w1)"
      by (simp add: backfill_store [of ?w2 r] fetched ws)
    from first True have "candle_points ?w1 = write_points ?ps (candle_points w)"
      by (simp add: backfill_store [of w r])
    with second show ?thesis by (simp add: write_points_idem)
  qed
  from store response show ?thesis by blast
qed

theorem backfill_twice_writes_idempotent_witness:
  "store_count example_world (example_request 1) < 100
   \<and> candle_points (snd (backfill_candles example_world (example_request 1)))
     = [((''BTCUSDT'', ''1m'', 940), example_fields)]
   \<and> candle_points (snd (backfill_candles
        ((snd (backfill_candles example_world (example_request 1)))\<lparr>clock := seconds 5000\<rparr>)
        (example_request 1)))
     = [((''BTCUSDT'', ''1m'', 940), example_fields)]
   \<and> store_count ((snd (backfill_candles example_world (example_request 1)))\<lparr>clock := seconds 5000\<rparr>)
        (example_request 1) = 1
   \<and> write_succeeds example_world (fetched_candles example_world (example_request 1))
   \<and> fst (backfill_candles
        ((snd (backfill_candles example_world (example_request 1)))\<lparr>clock := seconds 5000\<rparr>)
        (example_request 1))
       = Inr \<lparr>br_symbol = ''BTCUSDT'', br_interval = ''1m'', br_candlesWritten = 1,
              br_status = ''success'', br_message = ''Successfully backfilled 1 candles''\<rparr>"
  using backfill_twice_writes_idempotent
      [where w = example_world and r = "example_request 1" and t = "seconds 5000"]
  by (simp add: backfill_candles_def eval_defs write_succeeds_def str_int_def digits.simps)

end
